theory Spec2Isabelle
  imports Main
begin

section \<open>The Node binding of the thorn grammar\<close>

text \<open>
  The source is \<^verbatim>\<open>bindings/node/binding.cc\<close>:
  \<^verbatim>\<open>
  typedef struct TSLanguage TSLanguage;
  extern "C" TSLanguage *tree_sitter_thorn();

  Napi::Object Init(Napi::Env env, Napi::Object exports) {
    exports["name"] = Napi::String::New(env, "thorn");
    auto language = reinterpret_cast<void *>(tree_sitter_thorn());
    exports["language"] = Napi::External<void>::New(env, language);
    return exports;
  }
  NODE_API_MODULE(tree_sitter_thorn_binding, Init)
  \<close>
  \<open>Init\<close> has four effects, all of them through code that is not in the source: two
  property writes on an object of the host, one allocation of an External in the host,
  and one call of the external function \<open>tree_sitter_thorn\<close>. The objects of the host
  live in an explicit store that \<open>Init\<close> passes along. The external function is a
  parameter of the model, a function on the state of the C side that returns a pointer
  and the next state. A property write of the host can run code of the scripts (a setter,
  a trap of a proxy); that code is a parameter of the model too.
\<close>

subsection \<open>Pointers and tables\<close>

text \<open>A C pointer is its address; the null pointer is address 0.\<close>

datatype ptr = Ptr nat

definition nullptr :: ptr where
  "nullptr = Ptr 0"

text \<open>
  Modelled from the spec: the grammar table ``must include a format/version tag''; that
  tag is the only field the model gives a table. In the source \<open>TSLanguage\<close> is an
  incomplete type (\<^verbatim>\<open>typedef struct TSLanguage TSLanguage;\<close>), so the binding cannot
  read any field of it. The C side of the process is a memory of tables.
\<close>

record TSLanguage =
  version :: nat

type_synonym c_memory = "ptr \<rightharpoonup> TSLanguage"

subsection \<open>Values and objects of the host\<close>

text \<open>
  An object of the host is named by a reference, and a handle of type \<open>Napi::Object\<close> is
  such a reference: the host converts the exports value to an object before it calls the
  initializer of a module, so a primitive value arrives as its wrapper object. A
  reference that names no object of the store stands for a value that is no object and
  cannot be made one (\<open>undefined\<close>, \<open>null\<close>). A function of the scripts is named by a
  reference as well. \<open>Napi_Empty\<close> is the empty handle, which a creation that failed
  hands back in a build without C++ exceptions.
\<close>

type_synonym object_ref = nat

type_synonym code_ref = nat

datatype napi_value =
    Napi_Empty
  | Napi_Undefined
  | Napi_String string
  | Napi_Object object_ref

text \<open>
  A property of an object is a data property, with its value and its \<open>writable\<close>
  attribute, or an accessor property, with its setter if it has one.
\<close>

datatype slot =
    Data napi_value bool
  | Accessor "code_ref option"

text \<open>An ordinary object: its own properties, whether new properties may be added
  (false for an object that is frozen, sealed or closed to extensions), its prototype.\<close>

record js_object =
  props :: "string \<rightharpoonup> slot"
  extensible :: bool
  proto :: "object_ref option"

text \<open>
  An object of the store is an ordinary object, or an object whose property writes are
  all handed to code of the scripts (a proxy, an object with interceptors), or an
  External, which wraps a pointer and has neither properties nor prototype and takes no
  new property.
\<close>

datatype host_object =
    Ordinary js_object
  | Proxy code_ref
  | External ptr

text \<open>
  Modelled from the spec: \<open>TableVersionMismatch\<close> is the load error of the spec's
  error taxonomy (``grammar table format incompatible with the engine version; reported
  to caller at load time''). The source has no operation that produces it.
  The other exceptions are those that the operations of the host can hand to the caller
  of the binding: the error for a handle that names no object, the error for an empty
  value, a value thrown by code of the scripts.
\<close>

datatype exception =
    Object_Expected
  | Invalid_Arg
  | Script_Exception napi_value
  | TableVersionMismatch

text \<open>The environment: the store of objects, the next reference to allocate, and the
  exception that is pending in the host, if one is.\<close>

record Env =
  heap :: "object_ref \<rightharpoonup> host_object"
  next_ref :: object_ref
  pending_exception :: "exception option"

text \<open>
  Code of the scripts, called with the receiver of the write, the name of the property
  and the value: it returns with the environment changed as it likes, or throws a value,
  or never comes back (\<open>None\<close>).
\<close>

datatype script_result = Returns Env | Throws napi_value Env

type_synonym script =
  "code_ref \<Rightarrow> object_ref \<Rightarrow> string \<Rightarrow> napi_value \<Rightarrow> Env \<Rightarrow> script_result option"

text \<open>What a call into the host hands back to the C++ wrapper: a value, or a failure
  that the wrapper has to report.\<close>

datatype 'a completion = Normal 'a Env | Throw exception Env

subsection \<open>The operations of the host that the binding calls\<close>

text \<open>\<^verbatim>\<open>Napi::String::New(env, s)\<close>: a string value of the host. A string is a
  primitive value: it has no identity and takes no place in the store.\<close>

definition String_New :: "Env \<Rightarrow> string \<Rightarrow> napi_value" where
  "String_New env s = Napi_String s"

text \<open>
  \<^verbatim>\<open>Napi::External<void>::New(env, data)\<close>: allocates a new External in the store,
  which wraps the pointer as it is; nothing inspects the pointer. Each call gives a new
  object. The call refuses to work while an exception is pending; the wrapper then takes
  that exception out of the host and reports it.
\<close>

definition External_New :: "Env \<Rightarrow> ptr \<Rightarrow> napi_value completion" where
  "External_New env data =
     (case pending_exception env of
        Some e \<Rightarrow> Throw e (env\<lparr>pending_exception := None\<rparr>)
      | None \<Rightarrow>
          Normal (Napi_Object (next_ref env))
            (env\<lparr>heap := (heap env)(next_ref env \<mapsto> External data),
                  next_ref := Suc (next_ref env)\<rparr>))"

text \<open>
  The last step of a property write that no setter and no read-only property has
  stopped: the value is stored on the receiver. An own data property takes the value if
  it is writable; a new data property is created if the receiver is extensible; in every
  other case the write is dropped, without any error.
\<close>

definition store_on :: "Env \<Rightarrow> object_ref \<Rightarrow> string \<Rightarrow> napi_value \<Rightarrow> Env" where
  "store_on env receiver key v =
     (case heap env receiver of
        Some (Ordinary obj) \<Rightarrow>
          (case props obj key of
             Some (Data old writable) \<Rightarrow>
               if writable
               then env\<lparr>heap := (heap env)(receiver \<mapsto>
                      Ordinary (obj\<lparr>props := (props obj)(key \<mapsto> Data v True)\<rparr>))\<rparr>
               else env
           | Some (Accessor f) \<Rightarrow> env
           | None \<Rightarrow>
               if extensible obj
               then env\<lparr>heap := (heap env)(receiver \<mapsto>
                      Ordinary (obj\<lparr>props := (props obj)(key \<mapsto> Data v True)\<rparr>))\<rparr>
               else env)
      | _ \<Rightarrow> env)"

text \<open>
  The property write of the host, in the mode that does not throw on a refused write.
  It looks for the property on the object and then along its prototypes. A proxy on the
  way runs its code. An accessor property runs its setter, or drops the write if it has
  none. A data property that is not writable drops the write. A writable data property,
  or the end of the prototypes, leads to the store on the receiver. Prototypes that form
  a cycle make the search run forever (\<open>None\<close>).
\<close>

partial_function (option) set_walk ::
  "script \<Rightarrow> Env \<Rightarrow> object_ref \<Rightarrow> object_ref \<Rightarrow> string \<Rightarrow> napi_value \<Rightarrow> script_result option"
where
  "set_walk run env cur receiver key v =
     (case heap env cur of
        None \<Rightarrow> Some (Returns (store_on env receiver key v))
      | Some (Proxy c) \<Rightarrow> run c receiver key v env
      | Some (External p) \<Rightarrow> Some (Returns (store_on env receiver key v))
      | Some (Ordinary obj) \<Rightarrow>
          (case props obj key of
             Some (Accessor None) \<Rightarrow> Some (Returns env)
           | Some (Accessor (Some f)) \<Rightarrow> run f receiver key v env
           | Some (Data old writable) \<Rightarrow>
               if writable then Some (Returns (store_on env receiver key v))
               else Some (Returns env)
           | None \<Rightarrow>
               (case proto obj of
                  None \<Rightarrow> Some (Returns (store_on env receiver key v))
                | Some p \<Rightarrow> set_walk run env p receiver key v)))"

text \<open>
  \<^verbatim>\<open>obj[key] = v\<close>, that is \<open>napi_set_named_property\<close>: refuses to work while an
  exception is pending (the wrapper then takes that exception out of the host and reports
  it); fails on an empty value and on a handle that names no object; otherwise runs the
  property write of the host. A write that the host drops is a success. A value thrown by
  code of the scripts is a failure. Names with a meaning of their own on special objects
  (the length of an array, the indices of a string) are not modelled: \<open>Init\<close> writes
  \<open>name\<close> and \<open>language\<close> only.
\<close>

definition Object_Set ::
  "script \<Rightarrow> Env \<Rightarrow> object_ref \<Rightarrow> string \<Rightarrow> napi_value \<Rightarrow> unit completion option" where
  "Object_Set run env obj key v =
     (case pending_exception env of
        Some e \<Rightarrow> Some (Throw e (env\<lparr>pending_exception := None\<rparr>))
      | None \<Rightarrow>
          if v = Napi_Empty then Some (Throw Invalid_Arg env)
          else
            (case heap env obj of
               None \<Rightarrow> Some (Throw Object_Expected env)
             | Some target \<Rightarrow>
                 (case set_walk run env obj obj key v of
                    None \<Rightarrow> None
                  | Some (Returns env') \<Rightarrow> Some (Normal () env')
                  | Some (Throws x env') \<Rightarrow> Some (Throw (Script_Exception x) env'))))"

text \<open>\<^verbatim>\<open>reinterpret_cast<void *>(p)\<close> keeps the address.\<close>

definition reinterpret_cast_void :: "ptr \<Rightarrow> ptr" where
  "reinterpret_cast_void p = p"

text \<open>\<^verbatim>\<open>Napi::Error::ThrowAsJavaScriptException\<close>: the exception becomes the pending
  exception of the host.\<close>

definition ThrowAsJavaScriptException :: "Env \<Rightarrow> exception \<Rightarrow> Env" where
  "ThrowAsJavaScriptException env e = env\<lparr>pending_exception := Some e\<rparr>"

subsection \<open>The module initializer\<close>

text \<open>
  An outcome of \<open>Init\<close>: what it hands to its caller (the returned handle, or the C++
  exception that left it), the state of the C side and the environment afterwards.
\<close>

type_synonym 'w outcome = "(exception + object_ref) \<times> 'w \<times> Env"

text \<open>
  How the C++ wrapper of the host reports a failure depends on the build, which the
  source does not fix. With C++ exceptions the wrapper throws, and the function is left
  at once. Without them the wrapper makes the exception pending in the host, hands back
  an empty value, and the function goes on.
\<close>

definition throw_if_failed ::
  "bool \<Rightarrow> 'a completion \<Rightarrow> 'w \<Rightarrow> 'a \<Rightarrow> ('a \<Rightarrow> Env \<Rightarrow> 'w outcome option) \<Rightarrow> 'w outcome option"
where
  "throw_if_failed cpp_exceptions c w blank continue =
     (case c of
        Normal x env' \<Rightarrow> continue x env'
      | Throw e env' \<Rightarrow>
          if cpp_exceptions then Some (Inl e, w, env')
          else continue blank (ThrowAsJavaScriptException env' e))"

text \<open>
  \<open>Init cpp_exceptions run tree_sitter_thorn w env exports\<close> runs the body of \<open>Init\<close>
  from the state \<open>w\<close> of the C side and the environment \<open>env\<close>, in a build with or
  without C++ exceptions, with \<open>run\<close> the code of the scripts. \<open>None\<close>: \<open>Init\<close> never
  returns.
\<close>

definition Init ::
  "bool \<Rightarrow> script \<Rightarrow> ('w \<Rightarrow> ptr \<times> 'w) \<Rightarrow> 'w \<Rightarrow> Env \<Rightarrow> object_ref \<Rightarrow> 'w outcome option" where
  "Init cpp_exceptions run tree_sitter_thorn w env exports =
     (case Object_Set run env exports ''name'' (String_New env ''thorn'') of
        None \<Rightarrow> None
      | Some c1 \<Rightarrow>
          throw_if_failed cpp_exceptions c1 w () (\<lambda>u env1.
            case tree_sitter_thorn w of
              (lang, w1) \<Rightarrow>
                (let language = reinterpret_cast_void lang in
                 throw_if_failed cpp_exceptions (External_New env1 language) w1 Napi_Empty
                   (\<lambda>ext env2.
                      case Object_Set run env2 exports ''language'' ext of
                        None \<Rightarrow> None
                      | Some c3 \<Rightarrow>
                          throw_if_failed cpp_exceptions c3 w1 ()
                            (\<lambda>u env3. Some (Inr exports, w1, env3))))))"

text \<open>A second invocation of \<open>Init\<close> on the same exports object, from the state that a
  first one has left.\<close>

definition Init_again ::
  "bool \<Rightarrow> script \<Rightarrow> ('w \<Rightarrow> ptr \<times> 'w) \<Rightarrow> 'w outcome option \<Rightarrow> object_ref \<Rightarrow> 'w outcome option"
where
  "Init_again cpp_exceptions run tree_sitter_thorn first exports =
     (case first of
        None \<Rightarrow> None
      | Some (r, w1, env1) \<Rightarrow> Init cpp_exceptions run tree_sitter_thorn w1 env1 exports)"

subsection \<open>Reading the environment\<close>

text \<open>The value of an own data property of an object.\<close>

definition own_value :: "Env \<Rightarrow> object_ref \<Rightarrow> string \<Rightarrow> napi_value option" where
  "own_value env obj key =
     (case heap env obj of
        Some (Ordinary o1) \<Rightarrow>
          (case props o1 key of Some (Data v writable) \<Rightarrow> Some v | _ \<Rightarrow> None)
      | _ \<Rightarrow> None)"

text \<open>The pointer that a value wraps, if the value is an External
  (\<^verbatim>\<open>Napi::External<void>::Data\<close>).\<close>

definition wrapped_pointer :: "Env \<Rightarrow> napi_value \<Rightarrow> ptr option" where
  "wrapped_pointer env v =
     (case v of
        Napi_Object r \<Rightarrow> (case heap env r of Some (External p) \<Rightarrow> Some p | _ \<Rightarrow> None)
      | _ \<Rightarrow> None)"

text \<open>The components of an outcome, and the two readers on the environment of an
  outcome.\<close>

definition returned :: "'w outcome option \<Rightarrow> (exception + object_ref) option" where
  "returned out = (case out of None \<Rightarrow> None | Some (r, w1, env1) \<Rightarrow> Some r)"

definition world_after :: "'w outcome option \<Rightarrow> 'w option" where
  "world_after out = (case out of None \<Rightarrow> None | Some (r, w1, env1) \<Rightarrow> Some w1)"

definition env_after :: "'w outcome option \<Rightarrow> Env option" where
  "env_after out = (case out of None \<Rightarrow> None | Some (r, w1, env1) \<Rightarrow> Some env1)"

definition pending_after :: "'w outcome option \<Rightarrow> exception option" where
  "pending_after out = (case out of None \<Rightarrow> None | Some (r, w1, env1) \<Rightarrow> pending_exception env1)"

definition own_value_after :: "'w outcome option \<Rightarrow> object_ref \<Rightarrow> string \<Rightarrow> napi_value option" where
  "own_value_after out obj key =
     (case out of None \<Rightarrow> None | Some (r, w1, env1) \<Rightarrow> own_value env1 obj key)"

definition pointer_after :: "'w outcome option \<Rightarrow> object_ref \<Rightarrow> string \<Rightarrow> ptr option" where
  "pointer_after out obj key =
     (case out of
        None \<Rightarrow> None
      | Some (r, w1, env1) \<Rightarrow>
          (case own_value env1 obj key of None \<Rightarrow> None | Some v \<Rightarrow> wrapped_pointer env1 v))"

subsection \<open>Ordinary exports objects\<close>

text \<open>
  The search for a property \<open>key\<close> that starts at \<open>cur\<close> ends plainly: it meets no proxy,
  no accessor and no read-only property, and it ends at a writable data property or at
  the end of the prototypes.
\<close>

inductive accepts :: "Env \<Rightarrow> object_ref \<Rightarrow> string \<Rightarrow> bool" where
  own: "heap env cur = Some (Ordinary obj) \<Longrightarrow> props obj key = Some (Data old True) \<Longrightarrow>
          accepts env cur key"
| top: "heap env cur = Some (Ordinary obj) \<Longrightarrow> props obj key = None \<Longrightarrow> proto obj = None \<Longrightarrow>
          accepts env cur key"
| up: "heap env cur = Some (Ordinary obj) \<Longrightarrow> props obj key = None \<Longrightarrow> proto obj = Some p \<Longrightarrow>
          accepts env p key \<Longrightarrow> accepts env cur key"

code_pred accepts .

text \<open>The receiver takes a store of \<open>key\<close>: it has the property as a writable data
  property, or it has no such property and is extensible.\<close>

definition receiver_takes :: "Env \<Rightarrow> object_ref \<Rightarrow> string \<Rightarrow> bool" where
  "receiver_takes env receiver key =
     (case heap env receiver of
        Some (Ordinary obj) \<Rightarrow>
          (case props obj key of
             Some (Data old writable) \<Rightarrow> writable
           | Some (Accessor f) \<Rightarrow> False
           | None \<Rightarrow> extensible obj)
      | _ \<Rightarrow> False)"

definition plainly_writable :: "Env \<Rightarrow> object_ref \<Rightarrow> string \<Rightarrow> bool" where
  "plainly_writable env obj key = (accepts env obj key \<and> receiver_takes env obj key)"

text \<open>The references from \<open>next_ref\<close> on are not in use.\<close>

definition well_formed :: "Env \<Rightarrow> bool" where
  "well_formed env = (\<forall>r. next_ref env \<le> r \<longrightarrow> heap env r = None)"

text \<open>
  An ordinary exports object, as a module load passes it: no exception is pending, and
  the two properties that \<open>Init\<close> writes are plainly writable on it. The fresh object
  \<^verbatim>\<open>{}\<close> of a module load is one, as long as no script has put a setter or a read-only
  property of these names on its prototypes.
\<close>

definition ordinary_exports :: "Env \<Rightarrow> object_ref \<Rightarrow> bool" where
  "ordinary_exports env exports =
     (pending_exception env = None \<and> well_formed env \<and>
      plainly_writable env exports ''name'' \<and> plainly_writable env exports ''language'')"

subsection \<open>Instances: external functions, scripts, environments, tables\<close>

text \<open>An external function that returns the address of one static table on every call
  and changes nothing.\<close>

definition static_language :: "ptr \<Rightarrow> 'w \<Rightarrow> ptr \<times> 'w" where
  "static_language p w = (p, w)"

text \<open>An external function that counts its calls and returns a different address on
  each: call number \<open>n\<close> returns \<open>base + n\<close>.\<close>

definition counting_language :: "nat \<Rightarrow> nat \<Rightarrow> ptr \<times> nat" where
  "counting_language base n = (Ptr (base + n), Suc n)"

text \<open>Scripts whose code does nothing and returns.\<close>

definition no_scripts :: script where
  "no_scripts c receiver key v env = Some (Returns env)"

text \<open>Scripts whose code stores the value it is given in the property \<open>id\<close> of
  object 1, whatever the receiver is.\<close>

definition poke_script :: script where
  "poke_script c receiver key v env = Some (Returns (store_on env 1 ''id'' v))"

text \<open>The environment at a module load: object 0 is the fresh, empty exports object, its
  prototype is object 1, which has one property of its own.\<close>

definition load_env :: Env where
  "load_env =
     \<lparr>heap = [0 \<mapsto> Ordinary \<lparr>props = Map.empty, extensible = True, proto = Some 1\<rparr>,
              1 \<mapsto> Ordinary \<lparr>props = [''id'' \<mapsto> Data (Napi_String ''other'') True],
                              extensible = True, proto = None\<rparr>],
      next_ref = 2, pending_exception = None\<rparr>"

text \<open>The same with an exports object that is closed to extensions, as a frozen, sealed
  or non-extensible object is.\<close>

definition frozen_env :: Env where
  "frozen_env =
     \<lparr>heap = [0 \<mapsto> Ordinary \<lparr>props = Map.empty, extensible = False, proto = Some 1\<rparr>,
              1 \<mapsto> Ordinary \<lparr>props = [''id'' \<mapsto> Data (Napi_String ''other'') True],
                              extensible = True, proto = None\<rparr>],
      next_ref = 2, pending_exception = None\<rparr>"

text \<open>An exports object whose property \<open>name\<close> is an accessor with setter 0; object 1
  is another object of the host.\<close>

definition setter_env :: Env where
  "setter_env =
     \<lparr>heap = [0 \<mapsto> Ordinary \<lparr>props = [''name'' \<mapsto> Accessor (Some 0)],
                              extensible = True, proto = None\<rparr>,
              1 \<mapsto> Ordinary \<lparr>props = [''id'' \<mapsto> Data (Napi_String ''other'') True],
                              extensible = True, proto = None\<rparr>],
      next_ref = 2, pending_exception = None\<rparr>"

text \<open>An exports object that already has two writable data properties, one of them
  called \<open>name\<close>.\<close>

definition used_env :: Env where
  "used_env =
     \<lparr>heap = [0 \<mapsto> Ordinary \<lparr>props = [''name'' \<mapsto> Data Napi_Undefined True,
                                       ''extra'' \<mapsto> Data (Napi_Object 1) True],
                              extensible = True, proto = None\<rparr>,
              1 \<mapsto> Ordinary \<lparr>props = Map.empty, extensible = True, proto = None\<rparr>],
      next_ref = 2, pending_exception = None\<rparr>"

text \<open>Scripts whose code throws the string \<open>refused\<close>.\<close>

definition throwing_script :: script where
  "throwing_script c receiver key v env = Some (Throws (Napi_String ''refused'') env)"

text \<open>An exports object whose property \<open>language\<close> is an accessor with setter 0.\<close>

definition language_setter_env :: Env where
  "language_setter_env =
     \<lparr>heap = [0 \<mapsto> Ordinary \<lparr>props = [''language'' \<mapsto> Accessor (Some 0)],
                              extensible = True, proto = None\<rparr>],
      next_ref = 1, pending_exception = None\<rparr>"

text \<open>An exports object whose property \<open>name\<close> is a read-only data property.\<close>

definition readonly_env :: Env where
  "readonly_env =
     \<lparr>heap = [0 \<mapsto> Ordinary \<lparr>props = [''name'' \<mapsto> Data (Napi_String ''old'') False],
                              extensible = True, proto = None\<rparr>],
      next_ref = 1, pending_exception = None\<rparr>"

text \<open>Modelled from the spec: a table mismatches the engine when its version tag is
  not the version of the engine. The engine is not part of the source; its version is a
  parameter.\<close>

definition version_mismatch :: "nat \<Rightarrow> c_memory \<Rightarrow> ptr \<Rightarrow> bool" where
  "version_mismatch engine_version mem p =
     (case mem p of None \<Rightarrow> False | Some t \<Rightarrow> version t \<noteq> engine_version)"

text \<open>A C memory with one table at address 4096, of version 99.\<close>

definition old_table_memory :: c_memory where
  "old_table_memory = [Ptr 4096 \<mapsto> \<lparr>version = 99\<rparr>]"

text \<open>The same memory with the table replaced by one of version 15.\<close>

definition new_table_memory :: c_memory where
  "new_table_memory = [Ptr 4096 \<mapsto> \<lparr>version = 15\<rparr>]"

section \<open>What Init does on an ordinary exports object\<close>

lemma set_walk_accepts:
  "accepts env cur key \<Longrightarrow>
   set_walk run env cur receiver key v = Some (Returns (store_on env receiver key v))"
  by (induction rule: accepts.induct) (simp_all add: set_walk.simps)

lemma store_on_taken:
  assumes "receiver_takes env r key" and "heap env r = Some (Ordinary obj)"
  shows "store_on env r key v =
     env\<lparr>heap := (heap env)(r \<mapsto> Ordinary (obj\<lparr>props := (props obj)(key \<mapsto> Data v True)\<rparr>))\<rparr>"
  using assms by (auto simp: receiver_takes_def store_on_def split: option.splits slot.splits)

lemma Object_Set_plain:
  assumes "pending_exception env = None" and "v \<noteq> Napi_Empty"
    and "plainly_writable env r key" and "heap env r = Some (Ordinary obj)"
  shows "Object_Set run env r key v =
     Some (Normal () (env\<lparr>heap := (heap env)(r \<mapsto>
       Ordinary (obj\<lparr>props := (props obj)(key \<mapsto> Data v True)\<rparr>))\<rparr>))"
  using assms
  by (simp add: Object_Set_def plainly_writable_def set_walk_accepts store_on_taken)

lemma accepts_transfer:
  assumes "accepts env cur key"
    and "\<And>c obj. heap env c = Some (Ordinary obj) \<Longrightarrow>
           \<exists>obj'. heap env' c = Some (Ordinary obj') \<and> props obj' key = props obj key \<and>
                  proto obj' = proto obj"
  shows "accepts env' cur key"
  using assms
proof (induction rule: accepts.induct)
  case (own env cur obj key old)
  from own.prems [OF own.hyps(1)] own.hyps(2) show ?case
    by (auto intro: accepts.own)
next
  case (top env cur obj key)
  from top.prems [OF top.hyps(1)] top.hyps(2,3) show ?case
    by (auto intro: accepts.top)
next
  case (up env cur obj key p)
  from up.prems [OF up.hyps(1)] obtain obj' where
    "heap env' cur = Some (Ordinary obj')" "props obj' key = None" "proto obj' = Some p"
    using up.hyps(2,3) by auto
  moreover have "accepts env' p key"
    using up.IH up.prems by blast
  ultimately show ?case
    by (rule accepts.up)
qed

lemma plainly_writable_object:
  "plainly_writable env r key \<Longrightarrow> \<exists>obj. heap env r = Some (Ordinary obj)"
  by (auto simp: plainly_writable_def receiver_takes_def split: option.splits host_object.splits)

lemma well_formed_below:
  "well_formed env \<Longrightarrow> heap env r = Some x \<Longrightarrow> r < next_ref env"
  unfolding well_formed_def by (metis not_le option.distinct(1))

lemma receiver_takes_transfer:
  assumes "receiver_takes env r key" and "heap env r = Some (Ordinary obj)"
    and "heap env' r = Some (Ordinary obj')" and "props obj' key = props obj key"
    and "extensible obj' = extensible obj"
  shows "receiver_takes env' r key"
  using assms by (auto simp: receiver_takes_def split: option.splits slot.splits)

lemma Init_on_ordinary:
  assumes ord: "ordinary_exports env exports" and obj: "heap env exports = Some (Ordinary obj)"
  shows "Init cpp run tst w env exports =
     Some (Inr exports, snd (tst w),
       env\<lparr>heap := (heap env)
              (exports \<mapsto> Ordinary (obj\<lparr>props := (props obj)
                 (''name'' \<mapsto> Data (Napi_String ''thorn'') True,
                  ''language'' \<mapsto> Data (Napi_Object (next_ref env)) True)\<rparr>),
               next_ref env \<mapsto> External (fst (tst w))),
            next_ref := Suc (next_ref env)\<rparr>)"
proof -
  obtain lang w1 where call: "tst w = (lang, w1)"
    by (cases "tst w")
  let ?n = "next_ref env"
  let ?o1 = "obj\<lparr>props := (props obj)(''name'' \<mapsto> Data (Napi_String ''thorn'') True)\<rparr>"
  let ?env1 = "env\<lparr>heap := (heap env)(exports \<mapsto> Ordinary ?o1)\<rparr>"
  let ?env2 = "?env1\<lparr>heap := (heap ?env1)(?n \<mapsto> External lang), next_ref := Suc ?n\<rparr>"
  let ?o2 = "?o1\<lparr>props := (props ?o1)(''language'' \<mapsto> Data (Napi_Object ?n) True)\<rparr>"
  let ?env3 = "?env2\<lparr>heap := (heap ?env2)(exports \<mapsto> Ordinary ?o2)\<rparr>"
  from ord have pend: "pending_exception env = None" and wf: "well_formed env"
    and name: "plainly_writable env exports ''name''"
    and lang: "plainly_writable env exports ''language''"
    by (simp_all add: ordinary_exports_def)
  from wf obj have below: "exports < ?n"
    by (rule well_formed_below)
  then have diff: "exports \<noteq> ?n"
    by simp
  from wf have free: "heap env ?n = None"
    by (simp add: well_formed_def)
  have first: "Object_Set run env exports ''name'' (String_New env ''thorn'') =
      Some (Normal () ?env1)"
    using pend name obj by (simp add: Object_Set_plain String_New_def)
  have alloc: "External_New ?env1 (reinterpret_cast_void lang) = Normal (Napi_Object ?n) ?env2"
    using pend by (simp add: External_New_def reinterpret_cast_void_def)
  have obj2: "heap ?env2 exports = Some (Ordinary ?o1)"
    using diff by simp
  have "accepts ?env2 exports ''language''"
  proof (rule accepts_transfer)
    show "accepts env exports ''language''"
      using lang by (simp add: plainly_writable_def)
  next
    fix c ob
    assume c: "heap env c = Some (Ordinary ob)"
    with free have "c \<noteq> ?n"
      by auto
    with c obj show "\<exists>obj'. heap ?env2 c = Some (Ordinary obj') \<and>
        props obj' ''language'' = props ob ''language'' \<and> proto obj' = proto ob"
      by (cases "c = exports") auto
  qed
  moreover have "receiver_takes ?env2 exports ''language''"
  proof (rule receiver_takes_transfer [OF _ obj obj2])
    show "receiver_takes env exports ''language''"
      using lang by (simp add: plainly_writable_def)
  qed simp_all
  ultimately have lang2: "plainly_writable ?env2 exports ''language''"
    by (simp only: plainly_writable_def simp_thms)
  have pend2: "pending_exception ?env2 = None"
    using pend by simp
  have second: "Object_Set run ?env2 exports ''language'' (Napi_Object ?n) =
      Some (Normal () ?env3)"
    by (rule Object_Set_plain [OF pend2 _ lang2 obj2]) simp
  have "(heap ?env2)(exports \<mapsto> Ordinary ?o2) =
      (heap env)
        (exports \<mapsto> Ordinary (obj\<lparr>props := (props obj)
           (''name'' \<mapsto> Data (Napi_String ''thorn'') True,
            ''language'' \<mapsto> Data (Napi_Object ?n) True)\<rparr>),
         ?n \<mapsto> External lang)"
    using diff by (intro ext) simp
  then have final: "?env3 =
      env\<lparr>heap := (heap env)
             (exports \<mapsto> Ordinary (obj\<lparr>props := (props obj)
                (''name'' \<mapsto> Data (Napi_String ''thorn'') True,
                 ''language'' \<mapsto> Data (Napi_Object ?n) True)\<rparr>),
              ?n \<mapsto> External lang),
           next_ref := Suc ?n\<rparr>"
    by simp
  have "Init cpp run tst w env exports = Some (Inr exports, w1, ?env3)"
    unfolding Init_def
    by (simp only: first call alloc second throw_if_failed_def Let_def
          option.case completion.case prod.case)
  then show ?thesis
    by (simp only: final call fst_conv snd_conv)
qed

lemma ordinary_exports_object:
  "ordinary_exports env exports \<Longrightarrow> \<exists>obj. heap env exports = Some (Ordinary obj)"
  by (auto simp: ordinary_exports_def dest: plainly_writable_object)

lemma ordinary_exports_after:
  assumes ord: "ordinary_exports env exports" and obj: "heap env exports = Some (Ordinary obj)"
  shows "ordinary_exports
     (env\<lparr>heap := (heap env)
            (exports \<mapsto> Ordinary (obj\<lparr>props := (props obj)
               (''name'' \<mapsto> Data a True, ''language'' \<mapsto> Data b True)\<rparr>),
             next_ref env \<mapsto> External d),
          next_ref := Suc (next_ref env)\<rparr>) exports"
proof -
  let ?o2 = "obj\<lparr>props := (props obj)(''name'' \<mapsto> Data a True, ''language'' \<mapsto> Data b True)\<rparr>"
  let ?env' = "env\<lparr>heap := (heap env)(exports \<mapsto> Ordinary ?o2, next_ref env \<mapsto> External d),
                    next_ref := Suc (next_ref env)\<rparr>"
  from ord have pend: "pending_exception env = None" and wf: "well_formed env"
    by (simp_all add: ordinary_exports_def)
  from wf obj have "exports < next_ref env"
    by (rule well_formed_below)
  then have diff: "exports \<noteq> next_ref env"
    by simp
  have here: "heap ?env' exports = Some (Ordinary ?o2)"
    using diff by simp
  have wf': "well_formed ?env'"
    using wf \<open>exports < next_ref env\<close> by (simp add: well_formed_def)
  have name: "plainly_writable ?env' exports ''name''"
    unfolding plainly_writable_def
  proof
    show "accepts ?env' exports ''name''"
      by (rule accepts.own [OF here, of _ a]) simp
    show "receiver_takes ?env' exports ''name''"
      using diff by (simp add: receiver_takes_def)
  qed
  have lang: "plainly_writable ?env' exports ''language''"
    unfolding plainly_writable_def
  proof
    show "accepts ?env' exports ''language''"
      by (rule accepts.own [OF here, of _ b]) simp
    show "receiver_takes ?env' exports ''language''"
      using diff by (simp add: receiver_takes_def)
  qed
  from pend wf' name lang show ?thesis
    by (simp add: ordinary_exports_def)
qed

lemma load_env_ordinary: "ordinary_exports load_env 0"
proof -
  have h0: "heap load_env 0 =
      Some (Ordinary \<lparr>props = Map.empty, extensible = True, proto = Some 1\<rparr>)"
    by (simp add: load_env_def)
  have h1: "heap load_env 1 =
      Some (Ordinary \<lparr>props = [''id'' \<mapsto> Data (Napi_String ''other'') True],
                      extensible = True, proto = None\<rparr>)"
    by (simp add: load_env_def)
  have acc: "accepts load_env 0 key" if "key \<noteq> ''id''" for key
  proof (rule accepts.up [OF h0])
    show "accepts load_env 1 key"
      using that by (intro accepts.top [OF h1]) simp_all
  qed simp_all
  have takes: "receiver_takes load_env 0 key" for key
    by (simp add: receiver_takes_def load_env_def)
  have "well_formed load_env"
    by (simp add: well_formed_def load_env_def)
  moreover have "pending_exception load_env = None"
    by (simp add: load_env_def)
  ultimately show ?thesis
    using acc [of "''name''"] acc [of "''language''"] takes
    by (simp add: ordinary_exports_def plainly_writable_def)
qed

lemma used_env_ordinary: "ordinary_exports used_env 0"
proof -
  have h0: "heap used_env 0 =
      Some (Ordinary \<lparr>props = [''name'' \<mapsto> Data Napi_Undefined True,
                               ''extra'' \<mapsto> Data (Napi_Object 1) True],
                      extensible = True, proto = None\<rparr>)"
    by (simp add: used_env_def)
  have "accepts used_env 0 ''name''"
    by (rule accepts.own [OF h0, of _ Napi_Undefined]) simp
  moreover have "accepts used_env 0 ''language''"
    by (rule accepts.top [OF h0]) simp_all
  moreover have "receiver_takes used_env 0 ''name''" "receiver_takes used_env 0 ''language''"
    by (simp_all add: receiver_takes_def used_env_def)
  moreover have "well_formed used_env"
    by (simp add: well_formed_def used_env_def)
  moreover have "pending_exception used_env = None"
    by (simp add: used_env_def)
  ultimately show ?thesis
    by (simp add: ordinary_exports_def plainly_writable_def)
qed

lemma Init_frozen:
  "Init True run (counting_language 4096) 0 frozen_env 0 =
     Some (Inr 0, 1, frozen_env\<lparr>heap := (heap frozen_env)(2 \<mapsto> External (Ptr 4096)),
                                next_ref := 3\<rparr>)"
proof -
  have walk: "set_walk run env 0 0 key v = Some (Returns env)"
    if "heap env 0 = Some (Ordinary \<lparr>props = Map.empty, extensible = False, proto = Some 1\<rparr>)"
      and "heap env 1 = Some (Ordinary \<lparr>props = [''id'' \<mapsto> Data (Napi_String ''other'') True],
                              extensible = True, proto = None\<rparr>)"
      and "key \<noteq> ''id''"
    for env key v
  proof -
    have "set_walk run env 1 0 key v = Some (Returns (store_on env 0 key v))"
      using that by (subst set_walk.simps) simp
    moreover have "store_on env 0 key v = env"
      using that by (simp add: store_on_def)
    ultimately show ?thesis
      using that by (subst set_walk.simps) simp
  qed
  have first: "Object_Set run frozen_env 0 ''name'' (String_New frozen_env ''thorn'') =
      Some (Normal () frozen_env)"
    by (simp add: Object_Set_def String_New_def walk) (simp add: frozen_env_def walk)
  let ?env2 = "frozen_env\<lparr>heap := (heap frozen_env)(2 \<mapsto> External (Ptr 4096)), next_ref := 3\<rparr>"
  have alloc: "External_New frozen_env (reinterpret_cast_void (Ptr 4096)) =
      Normal (Napi_Object 2) ?env2"
    by (simp add: External_New_def reinterpret_cast_void_def frozen_env_def)
  have second: "Object_Set run ?env2 0 ''language'' (Napi_Object 2) = Some (Normal () ?env2)"
    by (simp add: Object_Set_def frozen_env_def walk)
  show ?thesis
    unfolding Init_def
    by (simp only: first alloc second throw_if_failed_def Let_def counting_language_def
          option.case completion.case prod.case add_0_right One_nat_def)
qed

lemma Init_ordinary_view:
  assumes ord: "ordinary_exports env exports"
  shows "returned (Init cpp run tst w env exports) = Some (Inr exports) \<and>
         world_after (Init cpp run tst w env exports) = Some (snd (tst w)) \<and>
         pending_after (Init cpp run tst w env exports) = None \<and>
         own_value_after (Init cpp run tst w env exports) exports ''name'' =
           Some (Napi_String ''thorn'') \<and>
         own_value_after (Init cpp run tst w env exports) exports ''language'' =
           Some (Napi_Object (next_ref env)) \<and>
         pointer_after (Init cpp run tst w env exports) exports ''language'' =
           Some (fst (tst w))"
proof -
  from ord obtain obj where obj: "heap env exports = Some (Ordinary obj)"
    using ordinary_exports_object by blast
  from ord have wf: "well_formed env" and pend: "pending_exception env = None"
    by (simp_all add: ordinary_exports_def)
  from wf obj have "exports < next_ref env"
    by (rule well_formed_below)
  then have diff: "exports \<noteq> next_ref env"
    by simp
  show ?thesis
    using diff pend
    by (simp add: Init_on_ordinary [OF ord obj] returned_def world_after_def pending_after_def
          own_value_after_def pointer_after_def own_value_def wrapped_pointer_def)
qed

lemma Init_again_ordinary:
  assumes ord: "ordinary_exports env exports"
  shows "\<exists>env'. ordinary_exports env' exports \<and> next_ref env' = Suc (next_ref env) \<and>
           Init cpp run tst w env exports = Some (Inr exports, snd (tst w), env') \<and>
           Init_again cpp run tst2 (Init cpp run tst w env exports) exports =
             Init cpp run tst2 (snd (tst w)) env' exports"
proof -
  from ord obtain obj where obj: "heap env exports = Some (Ordinary obj)"
    using ordinary_exports_object by blast
  show ?thesis
    using ordinary_exports_after [OF ord obj]
    by (simp add: Init_on_ordinary [OF ord obj] Init_again_def)
qed

lemma Init_setter:
  "Init True poke_script (static_language (Ptr 4096)) () setter_env 0 =
     Some (Inr 0, (),
       setter_env\<lparr>heap := (heap setter_env)
          (1 \<mapsto> Ordinary \<lparr>props = [''id'' \<mapsto> Data (Napi_String ''thorn'') True],
                            extensible = True, proto = None\<rparr>,
           2 \<mapsto> External (Ptr 4096),
           0 \<mapsto> Ordinary \<lparr>props = [''name'' \<mapsto> Accessor (Some 0),
                                     ''language'' \<mapsto> Data (Napi_Object 2) True],
                            extensible = True, proto = None\<rparr>),
          next_ref := 3\<rparr>)"
proof -
  let ?other = "Ordinary \<lparr>props = [''id'' \<mapsto> Data (Napi_String ''thorn'') True],
                          extensible = True, proto = None\<rparr>"
  let ?env1 = "setter_env\<lparr>heap := (heap setter_env)(1 \<mapsto> ?other)\<rparr>"
  let ?env2 = "?env1\<lparr>heap := (heap ?env1)(2 \<mapsto> External (Ptr 4096)), next_ref := 3\<rparr>"
  let ?env3 = "?env2\<lparr>heap := (heap ?env2)
      (0 \<mapsto> Ordinary \<lparr>props = [''name'' \<mapsto> Accessor (Some 0),
                                ''language'' \<mapsto> Data (Napi_Object 2) True],
                       extensible = True, proto = None\<rparr>)\<rparr>"
  have poke: "store_on setter_env 1 ''id'' (Napi_String ''thorn'') = ?env1"
    by (simp add: store_on_def setter_env_def)
  have run0: "poke_script 0 0 ''name'' (Napi_String ''thorn'') setter_env = Some (Returns ?env1)"
    using poke by (simp add: poke_script_def)
  have h0: "heap setter_env 0 =
      Some (Ordinary \<lparr>props = [''name'' \<mapsto> Accessor (Some 0)], extensible = True, proto = None\<rparr>)"
    by (simp add: setter_env_def)
  have "set_walk poke_script setter_env 0 0 ''name'' (Napi_String ''thorn'') =
      Some (Returns ?env1)"
    by (subst set_walk.simps) (simp add: h0 run0)
  then have first:
    "Object_Set poke_script setter_env 0 ''name'' (String_New setter_env ''thorn'') =
       Some (Normal () ?env1)"
    by (simp add: Object_Set_def String_New_def) (simp add: setter_env_def)
  have alloc: "External_New ?env1 (reinterpret_cast_void (Ptr 4096)) =
      Normal (Napi_Object 2) ?env2"
    by (simp add: External_New_def reinterpret_cast_void_def setter_env_def)
  have "store_on ?env2 0 ''language'' (Napi_Object 2) = ?env3"
    by (simp add: store_on_def setter_env_def)
  then have "set_walk poke_script ?env2 0 0 ''language'' (Napi_Object 2) = Some (Returns ?env3)"
    by (subst set_walk.simps) (simp add: setter_env_def)
  then have second: "Object_Set poke_script ?env2 0 ''language'' (Napi_Object 2) =
      Some (Normal () ?env3)"
    by (simp add: Object_Set_def) (simp add: setter_env_def)
  have "Init True poke_script (static_language (Ptr 4096)) () setter_env 0 =
      Some (Inr 0, (), ?env3)"
    unfolding Init_def
    by (simp only: first alloc second throw_if_failed_def Let_def static_language_def
          option.case completion.case prod.case)
  then show ?thesis
    by simp
qed

section \<open>What Init does on other exports objects\<close>

text \<open>
  The write of the host decides what \<open>Init\<close> does on an exports object that is not
  ordinary. A handle that names no object: with C++ exceptions \<open>Init\<close> throws at the
  first write and \<open>tree_sitter_thorn\<close> is not called; without them \<open>Init\<close> goes on,
  calls \<open>tree_sitter_thorn\<close>, writes nothing and returns with the exception pending. A
  read-only \<open>name\<close> keeps its value. A setter of \<open>language\<close> that throws makes
  \<open>Init\<close> throw after \<open>name\<close> is stored, \<open>tree_sitter_thorn\<close> is called and the
  External is allocated.
\<close>

lemma set_walk_own:
  assumes "heap env cur = Some (Ordinary obj)" and "props obj key = Some s"
  shows "set_walk run env cur receiver key v =
     (case s of
        Accessor None \<Rightarrow> Some (Returns env)
      | Accessor (Some f) \<Rightarrow> run f receiver key v env
      | Data old writable \<Rightarrow>
          if writable then Some (Returns (store_on env receiver key v)) else Some (Returns env))"
  using assms by (subst set_walk.simps) simp

lemma set_walk_top:
  assumes "heap env cur = Some (Ordinary obj)" and "props obj key = None" and "proto obj = None"
  shows "set_walk run env cur receiver key v = Some (Returns (store_on env receiver key v))"
  using assms by (subst set_walk.simps) simp

lemma Init_no_object:
  assumes "heap env exports = None" and "pending_exception env = None"
  shows "Init True run tst w env exports = Some (Inl Object_Expected, w, env)"
    and "Init False run tst w env exports =
      Some (Inr exports, snd (tst w), env\<lparr>pending_exception := Some Object_Expected\<rparr>)"
proof -
  have first: "Object_Set run env exports ''name'' (String_New env ''thorn'') =
      Some (Throw Object_Expected env)"
    using assms by (simp add: Object_Set_def String_New_def)
  show "Init True run tst w env exports = Some (Inl Object_Expected, w, env)"
    by (simp add: Init_def first throw_if_failed_def)
  let ?env1 = "env\<lparr>pending_exception := Some Object_Expected\<rparr>"
  have alloc: "External_New ?env1 p = Throw Object_Expected env" for p
    using assms by (simp add: External_New_def)
  have second: "Object_Set run ?env1 exports ''language'' x = Some (Throw Object_Expected env)" for x
    using assms by (simp add: Object_Set_def)
  show "Init False run tst w env exports = Some (Inr exports, snd (tst w), ?env1)"
    by (simp add: Init_def first throw_if_failed_def ThrowAsJavaScriptException_def alloc second
          split: prod.splits)
qed

lemma Init_readonly:
  "Init cpp run (static_language (Ptr 4096)) () readonly_env 0 =
     Some (Inr 0, (),
       readonly_env\<lparr>heap := (heap readonly_env)
          (1 \<mapsto> External (Ptr 4096),
           0 \<mapsto> Ordinary \<lparr>props = [''name'' \<mapsto> Data (Napi_String ''old'') False,
                                     ''language'' \<mapsto> Data (Napi_Object 1) True],
                            extensible = True, proto = None\<rparr>),
          next_ref := 2\<rparr>)"
proof -
  let ?env2 = "readonly_env\<lparr>heap := (heap readonly_env)(1 \<mapsto> External (Ptr 4096)),
                            next_ref := 2\<rparr>"
  let ?env3 = "?env2\<lparr>heap := (heap ?env2)
      (0 \<mapsto> Ordinary \<lparr>props = [''name'' \<mapsto> Data (Napi_String ''old'') False,
                                ''language'' \<mapsto> Data (Napi_Object 1) True],
                       extensible = True, proto = None\<rparr>)\<rparr>"
  have h0: "heap readonly_env 0 =
      Some (Ordinary \<lparr>props = [''name'' \<mapsto> Data (Napi_String ''old'') False],
                      extensible = True, proto = None\<rparr>)"
    by (simp add: readonly_env_def)
  have "set_walk run readonly_env 0 0 ''name'' (Napi_String ''thorn'') =
      (case Data (Napi_String ''old'') False of
         Accessor None \<Rightarrow> Some (Returns readonly_env)
       | Accessor (Some f) \<Rightarrow> run f 0 ''name'' (Napi_String ''thorn'') readonly_env
       | Data old writable \<Rightarrow>
           if writable
           then Some (Returns (store_on readonly_env 0 ''name'' (Napi_String ''thorn'')))
           else Some (Returns readonly_env))"
    by (rule set_walk_own [OF h0]) simp
  then have "set_walk run readonly_env 0 0 ''name'' (Napi_String ''thorn'') =
      Some (Returns readonly_env)"
    by simp
  then have first: "Object_Set run readonly_env 0 ''name'' (String_New readonly_env ''thorn'') =
      Some (Normal () readonly_env)"
    by (simp add: Object_Set_def String_New_def h0) (simp add: readonly_env_def)
  have alloc: "External_New readonly_env (reinterpret_cast_void (Ptr 4096)) =
      Normal (Napi_Object 1) ?env2"
    by (simp add: External_New_def reinterpret_cast_void_def readonly_env_def)
  have h2: "heap ?env2 0 =
      Some (Ordinary \<lparr>props = [''name'' \<mapsto> Data (Napi_String ''old'') False],
                      extensible = True, proto = None\<rparr>)"
    by (simp add: readonly_env_def)
  have store: "store_on ?env2 0 ''language'' (Napi_Object 1) = ?env3"
    by (simp add: store_on_def readonly_env_def)
  have "set_walk run ?env2 0 0 ''language'' (Napi_Object 1) =
      Some (Returns (store_on ?env2 0 ''language'' (Napi_Object 1)))"
    by (rule set_walk_top [OF h2]) simp_all
  then have walk: "set_walk run ?env2 0 0 ''language'' (Napi_Object 1) = Some (Returns ?env3)"
    by (simp only: store)
  have second: "Object_Set run ?env2 0 ''language'' (Napi_Object 1) = Some (Normal () ?env3)"
    unfolding Object_Set_def walk by (simp add: readonly_env_def)
  have "Init cpp run (static_language (Ptr 4096)) () readonly_env 0 = Some (Inr 0, (), ?env3)"
    unfolding Init_def
    by (simp only: first alloc second throw_if_failed_def Let_def static_language_def
          option.case completion.case prod.case)
  then show ?thesis
    by simp
qed

lemma Init_throwing_setter:
  "Init True throwing_script (counting_language 4096) 0 language_setter_env 0 =
     Some (Inl (Script_Exception (Napi_String ''refused'')), 1,
       language_setter_env\<lparr>heap := (heap language_setter_env)
          (0 \<mapsto> Ordinary \<lparr>props = [''language'' \<mapsto> Accessor (Some 0),
                                     ''name'' \<mapsto> Data (Napi_String ''thorn'') True],
                            extensible = True, proto = None\<rparr>,
           1 \<mapsto> External (Ptr 4096)),
          next_ref := 2\<rparr>)"
  "Init False throwing_script (counting_language 4096) 0 language_setter_env 0 =
     Some (Inr 0, 1,
       language_setter_env\<lparr>heap := (heap language_setter_env)
          (0 \<mapsto> Ordinary \<lparr>props = [''language'' \<mapsto> Accessor (Some 0),
                                     ''name'' \<mapsto> Data (Napi_String ''thorn'') True],
                            extensible = True, proto = None\<rparr>,
           1 \<mapsto> External (Ptr 4096)),
          next_ref := 2,
          pending_exception := Some (Script_Exception (Napi_String ''refused''))\<rparr>)"
proof -
  let ?o1 = "Ordinary \<lparr>props = [''language'' \<mapsto> Accessor (Some 0),
                                ''name'' \<mapsto> Data (Napi_String ''thorn'') True],
                       extensible = True, proto = None\<rparr>"
  let ?env1 = "language_setter_env\<lparr>heap := (heap language_setter_env)(0 \<mapsto> ?o1)\<rparr>"
  let ?env2 = "?env1\<lparr>heap := (heap ?env1)(1 \<mapsto> External (Ptr 4096)), next_ref := 2\<rparr>"
  have call: "counting_language 4096 0 = (Ptr 4096, 1)"
    by (simp add: counting_language_def)
  have h0: "heap language_setter_env 0 =
      Some (Ordinary \<lparr>props = [''language'' \<mapsto> Accessor (Some 0)],
                      extensible = True, proto = None\<rparr>)"
    by (simp add: language_setter_env_def)
  have store: "store_on language_setter_env 0 ''name'' (Napi_String ''thorn'') = ?env1"
    by (simp add: store_on_def h0)
  have "set_walk throwing_script language_setter_env 0 0 ''name'' (Napi_String ''thorn'') =
      Some (Returns (store_on language_setter_env 0 ''name'' (Napi_String ''thorn'')))"
    by (rule set_walk_top [OF h0]) simp_all
  then have "set_walk throwing_script language_setter_env 0 0 ''name'' (Napi_String ''thorn'') =
      Some (Returns ?env1)"
    by (simp only: store)
  then have first: "Object_Set throwing_script language_setter_env 0 ''name''
      (String_New language_setter_env ''thorn'') = Some (Normal () ?env1)"
    by (simp add: Object_Set_def String_New_def h0) (simp add: language_setter_env_def)
  have alloc: "External_New ?env1 (reinterpret_cast_void (Ptr 4096)) =
      Normal (Napi_Object 1) ?env2"
    by (simp add: External_New_def reinterpret_cast_void_def language_setter_env_def)
  have h2: "heap ?env2 0 = Some ?o1"
    by simp
  have "set_walk throwing_script ?env2 0 0 ''language'' (Napi_Object 1) =
      (case Accessor (Some 0) of
         Accessor None \<Rightarrow> Some (Returns ?env2)
       | Accessor (Some f) \<Rightarrow> throwing_script f 0 ''language'' (Napi_Object 1) ?env2
       | Data old writable \<Rightarrow>
           if writable then Some (Returns (store_on ?env2 0 ''language'' (Napi_Object 1)))
           else Some (Returns ?env2))"
    by (rule set_walk_own [OF h2]) simp
  then have walk: "set_walk throwing_script ?env2 0 0 ''language'' (Napi_Object 1) =
      Some (Throws (Napi_String ''refused'') ?env2)"
    by (simp only: slot.case option.case throwing_script_def)
  have second: "Object_Set throwing_script ?env2 0 ''language'' (Napi_Object 1) =
      Some (Throw (Script_Exception (Napi_String ''refused'')) ?env2)"
    unfolding Object_Set_def walk by (simp add: language_setter_env_def)
  have "Init True throwing_script (counting_language 4096) 0 language_setter_env 0 =
      Some (Inl (Script_Exception (Napi_String ''refused'')), 1, ?env2)"
    unfolding Init_def
    by (simp only: first call alloc second throw_if_failed_def Let_def
          option.case completion.case prod.case if_True)
  then show "Init True throwing_script (counting_language 4096) 0 language_setter_env 0 =
     Some (Inl (Script_Exception (Napi_String ''refused'')), 1,
       language_setter_env\<lparr>heap := (heap language_setter_env)(0 \<mapsto> ?o1, 1 \<mapsto> External (Ptr 4096)),
          next_ref := 2\<rparr>)"
    by simp
  have "Init False throwing_script (counting_language 4096) 0 language_setter_env 0 =
      Some (Inr 0, 1, ThrowAsJavaScriptException ?env2 (Script_Exception (Napi_String ''refused'')))"
    unfolding Init_def
    by (simp only: first call alloc second throw_if_failed_def Let_def
          option.case completion.case prod.case if_False)
  then show "Init False throwing_script (counting_language 4096) 0 language_setter_env 0 =
     Some (Inr 0, 1,
       language_setter_env\<lparr>heap := (heap language_setter_env)(0 \<mapsto> ?o1, 1 \<mapsto> External (Ptr 4096)),
          next_ref := 2,
          pending_exception := Some (Script_Exception (Napi_String ''refused''))\<rparr>)"
    by (simp add: ThrowAsJavaScriptException_def)
qed

section \<open>The claims about the binding\<close>

text \<open>
  C1, as the spec states it: for every invocation of \<open>Init\<close> on an environment and an
  exports object, the property \<open>name\<close> of the exports object is the string \<open>thorn\<close>
  after \<open>Init\<close> returns. On an exports object that is closed to extensions the host
  drops the write without an error: \<open>Init\<close> returns the exports object, no exception
  is pending, and the object has no property \<open>name\<close>.
\<close>

theorem Init_exports_name_counterexample:
  "returned (Init True no_scripts (counting_language 4096) 0 frozen_env 0) = Some (Inr 0) \<and>
   pending_after (Init True no_scripts (counting_language 4096) 0 frozen_env 0) = None \<and>
   own_value_after (Init True no_scripts (counting_language 4096) 0 frozen_env 0) 0 ''name'' =
     None"
  unfolding Init_frozen
  by (simp add: returned_def pending_after_def own_value_after_def own_value_def frozen_env_def)

text \<open>
  C1, amended: for every invocation of \<open>Init\<close> on an environment and an ordinary exports
  object (no exception pending; \<open>name\<close> and \<open>language\<close> plainly writable on it), in
  either build, whatever the scripts and the external function are, \<open>Init\<close> returns the
  exports object with no exception pending, and the property \<open>name\<close> of the exports
  object is then the string \<open>thorn\<close>.
\<close>

theorem Init_exports_name:
  assumes "ordinary_exports env exports"
  shows "returned (Init cpp_exceptions run tst w env exports) = Some (Inr exports) \<and>
         pending_after (Init cpp_exceptions run tst w env exports) = None \<and>
         own_value_after (Init cpp_exceptions run tst w env exports) exports ''name'' =
           Some (Napi_String ''thorn'')"
  using Init_ordinary_view [OF assms, of cpp_exceptions run tst w] by simp

theorem Init_exports_name_witness:
  "ordinary_exports load_env 0 \<and>
   returned (Init False no_scripts (static_language (Ptr 4096)) () load_env 0) = Some (Inr 0) \<and>
   pending_after (Init False no_scripts (static_language (Ptr 4096)) () load_env 0) = None \<and>
   own_value_after (Init False no_scripts (static_language (Ptr 4096)) () load_env 0) 0 ''name'' =
     Some (Napi_String ''thorn'')"
  using load_env_ordinary
    Init_exports_name [OF load_env_ordinary, of False no_scripts "static_language (Ptr 4096)" "()"]
  by simp

text \<open>
  C2, as the spec states it: for every invocation of \<open>Init\<close>, the property \<open>language\<close>
  is an External that wraps the pointer returned by the call of \<open>tree_sitter_thorn\<close>
  made during the invocation, and the handle is stable for the lifetime of the process,
  never reassigned by the binding. First, on an exports object that is closed to
  extensions, \<open>tree_sitter_thorn\<close> is called once and \<open>Init\<close> returns, but no property
  \<open>language\<close> is stored. Second, on the exports object of a module load, with an
  external function that returns another address on each call, a second invocation of
  \<open>Init\<close> replaces the handle: object 2, which wraps address 4096, gives way to object 3,
  which wraps address 4097.
\<close>

theorem Init_exports_language_counterexample:
  "world_after (Init True no_scripts (counting_language 4096) 0 frozen_env 0) = Some 1 \<and>
   returned (Init True no_scripts (counting_language 4096) 0 frozen_env 0) = Some (Inr 0) \<and>
   own_value_after (Init True no_scripts (counting_language 4096) 0 frozen_env 0) 0
     ''language'' = None \<and>
   own_value_after (Init True no_scripts (counting_language 4096) 0 load_env 0) 0
     ''language'' = Some (Napi_Object 2) \<and>
   pointer_after (Init True no_scripts (counting_language 4096) 0 load_env 0) 0
     ''language'' = Some (Ptr 4096) \<and>
   own_value_after
     (Init_again True no_scripts (counting_language 4096)
        (Init True no_scripts (counting_language 4096) 0 load_env 0) 0) 0
     ''language'' = Some (Napi_Object 3) \<and>
   pointer_after
     (Init_again True no_scripts (counting_language 4096)
        (Init True no_scripts (counting_language 4096) 0 load_env 0) 0) 0
     ''language'' = Some (Ptr 4097)"
proof -
  let ?first = "Init True no_scripts (counting_language 4096) 0 load_env 0"
  have frozen:
    "world_after (Init True no_scripts (counting_language 4096) 0 frozen_env 0) = Some 1 \<and>
     returned (Init True no_scripts (counting_language 4096) 0 frozen_env 0) = Some (Inr 0) \<and>
     own_value_after (Init True no_scripts (counting_language 4096) 0 frozen_env 0) 0
       ''language'' = None"
    unfolding Init_frozen
    by (simp add: world_after_def returned_def own_value_after_def own_value_def frozen_env_def)
  have n: "next_ref load_env = 2"
    by (simp add: load_env_def)
  have one: "own_value_after ?first 0 ''language'' = Some (Napi_Object 2) \<and>
      pointer_after ?first 0 ''language'' = Some (Ptr 4096)"
    using Init_ordinary_view [OF load_env_ordinary, of True no_scripts "counting_language 4096" 0]
    by (simp add: n counting_language_def)
  obtain env' where ord': "ordinary_exports env' 0" and n': "next_ref env' = Suc (next_ref load_env)"
    and again: "Init_again True no_scripts (counting_language 4096) ?first 0 =
      Init True no_scripts (counting_language 4096)
        (snd (counting_language 4096 0)) env' 0"
    using Init_again_ordinary [OF load_env_ordinary, of True no_scripts "counting_language 4096" 0
        "counting_language 4096"]
    by blast
  have two: "own_value_after (Init_again True no_scripts (counting_language 4096) ?first 0) 0
        ''language'' = Some (Napi_Object 3) \<and>
      pointer_after (Init_again True no_scripts (counting_language 4096) ?first 0) 0
        ''language'' = Some (Ptr 4097)"
    using Init_ordinary_view [OF ord', of True no_scripts "counting_language 4096"
        "snd (counting_language 4096 0)"]
    by (simp add: again n' n counting_language_def)
  from frozen one two show ?thesis
    by blast
qed

text \<open>
  C2, amended: for every invocation of \<open>Init\<close> on an ordinary exports object, the
  property \<open>language\<close> of the exports object is afterwards a newly allocated External
  that wraps exactly the pointer returned by the call of \<open>tree_sitter_thorn\<close> made
  during the invocation, and that call is the only one: the C side is left in the state
  that one call from the initial state leaves it in. The binding does not keep the handle
  for the lifetime of the process: a further invocation of \<open>Init\<close> on the same exports
  object calls \<open>tree_sitter_thorn\<close> once more and replaces the handle by another new
  External, which wraps the pointer that this call returns.
\<close>

theorem Init_exports_language:
  assumes "ordinary_exports env exports"
  shows "returned (Init cpp_exceptions run tst w env exports) = Some (Inr exports) \<and>
         heap env (next_ref env) = None \<and>
         own_value_after (Init cpp_exceptions run tst w env exports) exports ''language'' =
           Some (Napi_Object (next_ref env)) \<and>
         pointer_after (Init cpp_exceptions run tst w env exports) exports ''language'' =
           Some (fst (tst w)) \<and>
         world_after (Init cpp_exceptions run tst w env exports) = Some (snd (tst w)) \<and>
         own_value_after
           (Init_again cpp_exceptions run tst (Init cpp_exceptions run tst w env exports) exports)
           exports ''language'' = Some (Napi_Object (Suc (next_ref env))) \<and>
         pointer_after
           (Init_again cpp_exceptions run tst (Init cpp_exceptions run tst w env exports) exports)
           exports ''language'' = Some (fst (tst (snd (tst w)))) \<and>
         world_after
           (Init_again cpp_exceptions run tst (Init cpp_exceptions run tst w env exports) exports) =
           Some (snd (tst (snd (tst w))))"
proof -
  let ?first = "Init cpp_exceptions run tst w env exports"
  from assms have "well_formed env"
    by (simp add: ordinary_exports_def)
  then have fresh: "heap env (next_ref env) = None"
    by (simp add: well_formed_def)
  note one = Init_ordinary_view [OF assms, of cpp_exceptions run tst w]
  obtain env' where ord': "ordinary_exports env' exports"
    and n': "next_ref env' = Suc (next_ref env)"
    and again: "Init_again cpp_exceptions run tst ?first exports =
      Init cpp_exceptions run tst (snd (tst w)) env' exports"
    using Init_again_ordinary [OF assms, of cpp_exceptions run tst w tst] by blast
  note two = Init_ordinary_view [OF ord', of cpp_exceptions run tst "snd (tst w)"]
  from fresh one two show ?thesis
    by (simp add: again n')
qed

theorem Init_exports_language_witness:
  "ordinary_exports load_env 0 \<and>
   returned (Init False no_scripts (counting_language 4096) 0 load_env 0) = Some (Inr 0) \<and>
   heap load_env 2 = None \<and>
   own_value_after (Init False no_scripts (counting_language 4096) 0 load_env 0) 0
     ''language'' = Some (Napi_Object 2) \<and>
   pointer_after (Init False no_scripts (counting_language 4096) 0 load_env 0) 0
     ''language'' = Some (Ptr 4096) \<and>
   world_after (Init False no_scripts (counting_language 4096) 0 load_env 0) = Some 1 \<and>
   own_value_after
     (Init_again False no_scripts (counting_language 4096)
        (Init False no_scripts (counting_language 4096) 0 load_env 0) 0) 0
     ''language'' = Some (Napi_Object 3) \<and>
   pointer_after
     (Init_again False no_scripts (counting_language 4096)
        (Init False no_scripts (counting_language 4096) 0 load_env 0) 0) 0
     ''language'' = Some (Ptr 4097) \<and>
   world_after
     (Init_again False no_scripts (counting_language 4096)
        (Init False no_scripts (counting_language 4096) 0 load_env 0) 0) = Some 2"
proof -
  have n: "next_ref load_env = 2"
    by (simp add: load_env_def)
  show ?thesis
    using load_env_ordinary
      Init_exports_language [OF load_env_ordinary, of False no_scripts "counting_language 4096" 0]
    by (simp add: n counting_language_def)
qed

text \<open>
  C8, as the spec states it: loading checks the version tag of the table, and for a
  table whose version mismatches the engine, loading reports \<open>TableVersionMismatch\<close>
  before the handle of the table is exposed. \<open>Init\<close> is the load-time path of the
  source, and it does not: the table at address 4096 has version 99, the engine has
  version 15, and \<open>Init\<close> on the exports object of a module load returns that object, with
  no exception pending and with the handle of that table in it.
\<close>

theorem Init_version_check_counterexample:
  "version_mismatch 15 old_table_memory (fst (static_language (Ptr 4096) old_table_memory)) \<and>
   returned (Init True no_scripts (static_language (Ptr 4096)) old_table_memory load_env 0) =
     Some (Inr 0) \<and>
   pending_after (Init True no_scripts (static_language (Ptr 4096)) old_table_memory load_env 0) =
     None \<and>
   pointer_after (Init True no_scripts (static_language (Ptr 4096)) old_table_memory load_env 0)
     0 ''language'' = Some (Ptr 4096)"
proof -
  have "version_mismatch 15 old_table_memory (fst (static_language (Ptr 4096) old_table_memory))"
    by (simp add: version_mismatch_def old_table_memory_def static_language_def)
  then show ?thesis
    using Init_ordinary_view [OF load_env_ordinary, of True no_scripts
        "static_language (Ptr 4096)" old_table_memory]
    by (simp add: static_language_def)
qed

text \<open>
  C8, amended: the load-time path of the binding, \<open>Init\<close>, makes no check of the version
  tag of the table. For every memory of tables, whatever their version tags, \<open>Init\<close> on
  an ordinary exports object reports no \<open>TableVersionMismatch\<close>: it returns the exports
  object with no exception pending, and exposes the handle of the table under
  \<open>language\<close>. What \<open>Init\<close> does to the environment is the same for any two memories
  in which \<open>tree_sitter_thorn\<close> returns the same pointer, so it depends on no version tag.
\<close>

theorem Init_ignores_table_version:
  fixes mem mem' :: c_memory
  assumes "ordinary_exports env exports"
  shows "returned (Init cpp_exceptions run tst mem env exports) = Some (Inr exports) \<and>
         pending_after (Init cpp_exceptions run tst mem env exports) = None \<and>
         pointer_after (Init cpp_exceptions run tst mem env exports) exports ''language'' =
           Some (fst (tst mem)) \<and>
         (fst (tst mem') = fst (tst mem) \<longrightarrow>
            env_after (Init cpp_exceptions run tst mem' env exports) =
              env_after (Init cpp_exceptions run tst mem env exports))"
proof -
  from assms obtain obj where obj: "heap env exports = Some (Ordinary obj)"
    using ordinary_exports_object by blast
  have same: "fst (tst mem') = fst (tst mem) \<longrightarrow>
      env_after (Init cpp_exceptions run tst mem' env exports) =
        env_after (Init cpp_exceptions run tst mem env exports)"
    by (simp add: Init_on_ordinary [OF assms obj] env_after_def)
  from same Init_ordinary_view [OF assms, of cpp_exceptions run tst mem] show ?thesis
    by simp
qed

theorem Init_ignores_table_version_witness:
  "ordinary_exports used_env 0 \<and>
   version_mismatch 15 old_table_memory (Ptr 4096) \<and>
   \<not> version_mismatch 15 new_table_memory (Ptr 4096) \<and>
   returned (Init True no_scripts (static_language (Ptr 4096)) old_table_memory used_env 0) =
     Some (Inr 0) \<and>
   pending_after (Init True no_scripts (static_language (Ptr 4096)) old_table_memory used_env 0) =
     None \<and>
   pointer_after (Init True no_scripts (static_language (Ptr 4096)) old_table_memory used_env 0)
     0 ''language'' = Some (Ptr 4096) \<and>
   env_after (Init True no_scripts (static_language (Ptr 4096)) new_table_memory used_env 0) =
     env_after (Init True no_scripts (static_language (Ptr 4096)) old_table_memory used_env 0)"
proof -
  have versions: "version_mismatch 15 old_table_memory (Ptr 4096) \<and>
      \<not> version_mismatch 15 new_table_memory (Ptr 4096)"
    by (simp add: version_mismatch_def old_table_memory_def new_table_memory_def)
  show ?thesis
    using used_env_ordinary versions
      Init_ignores_table_version [OF used_env_ordinary, of True no_scripts
        "static_language (Ptr 4096)" old_table_memory new_table_memory]
    by (simp add: static_language_def)
qed

text \<open>
  C9, as the spec states it: for every invocation, \<open>Init\<close> returns the exports object it
  was passed, the only changes it makes are the two properties \<open>name\<close> and \<open>language\<close>
  added to it, and everything else in the exports object and in the environment is
  unchanged. On an exports object whose property \<open>name\<close> is an accessor, the write runs
  the setter: with a setter that stores its argument in another object, \<open>Init\<close> returns,
  the exports object has no data property \<open>name\<close>, and the property \<open>id\<close> of object 1
  has changed from \<open>other\<close> to \<open>thorn\<close>.
\<close>

theorem Init_frame_counterexample:
  "own_value setter_env 1 ''id'' = Some (Napi_String ''other'') \<and>
   returned (Init True poke_script (static_language (Ptr 4096)) () setter_env 0) = Some (Inr 0) \<and>
   own_value_after (Init True poke_script (static_language (Ptr 4096)) () setter_env 0) 1 ''id'' =
     Some (Napi_String ''thorn'') \<and>
   own_value_after (Init True poke_script (static_language (Ptr 4096)) () setter_env 0) 0
     ''name'' = None"
proof -
  have "own_value setter_env 1 ''id'' = Some (Napi_String ''other'')"
    by (simp add: own_value_def setter_env_def)
  then show ?thesis
    unfolding Init_setter
    by (simp add: returned_def own_value_after_def own_value_def)
qed

text \<open>
  C9, amended: for every invocation on an ordinary exports object, \<open>Init\<close> returns the
  very exports handle it was passed. In the exports object it writes the two properties
  \<open>name\<close> and \<open>language\<close>, adding them or overwriting them, and nothing else: every
  other property, the prototype and the extensibility are as before. Every other object
  that existed is unchanged. The one other change to the environment is the newly
  allocated External that \<open>language\<close> refers to, at the next free reference, which
  advances by one. No exception is pending afterwards.
\<close>

theorem Init_frame:
  assumes "ordinary_exports env exports" and "heap env exports = Some (Ordinary obj)"
  shows "\<exists>env'. Init cpp_exceptions run tst w env exports =
                  Some (Inr exports, snd (tst w), env') \<and>
           heap env' exports =
             Some (Ordinary (obj\<lparr>props := (props obj)
               (''name'' \<mapsto> Data (Napi_String ''thorn'') True,
                ''language'' \<mapsto> Data (Napi_Object (next_ref env)) True)\<rparr>)) \<and>
           (\<forall>key. key \<noteq> ''name'' \<longrightarrow> key \<noteq> ''language'' \<longrightarrow>
              own_value env' exports key = own_value env exports key) \<and>
           heap env (next_ref env) = None \<and>
           heap env' (next_ref env) = Some (External (fst (tst w))) \<and>
           (\<forall>r. r \<noteq> exports \<longrightarrow> r \<noteq> next_ref env \<longrightarrow> heap env' r = heap env r) \<and>
           next_ref env' = Suc (next_ref env) \<and>
           pending_exception env' = pending_exception env \<and>
           pending_exception env' = None"
proof -
  let ?env' = "env\<lparr>heap := (heap env)
      (exports \<mapsto> Ordinary (obj\<lparr>props := (props obj)
         (''name'' \<mapsto> Data (Napi_String ''thorn'') True,
          ''language'' \<mapsto> Data (Napi_Object (next_ref env)) True)\<rparr>),
       next_ref env \<mapsto> External (fst (tst w))),
      next_ref := Suc (next_ref env)\<rparr>"
  from assms(1) have wf: "well_formed env" and pend: "pending_exception env = None"
    by (simp_all add: ordinary_exports_def)
  from wf assms(2) have "exports < next_ref env"
    by (rule well_formed_below)
  then have diff: "exports \<noteq> next_ref env"
    by simp
  from wf have fresh: "heap env (next_ref env) = None"
    by (simp add: well_formed_def)
  have run: "Init cpp_exceptions run tst w env exports = Some (Inr exports, snd (tst w), ?env')"
    using assms by (rule Init_on_ordinary)
  have here: "heap ?env' exports =
      Some (Ordinary (obj\<lparr>props := (props obj)
        (''name'' \<mapsto> Data (Napi_String ''thorn'') True,
         ''language'' \<mapsto> Data (Napi_Object (next_ref env)) True)\<rparr>))"
    using diff by simp
  have others: "\<forall>key. key \<noteq> ''name'' \<longrightarrow> key \<noteq> ''language'' \<longrightarrow>
      own_value ?env' exports key = own_value env exports key"
    using diff assms(2) by (simp add: own_value_def)
  have ext: "heap ?env' (next_ref env) = Some (External (fst (tst w)))"
    by simp
  have objects: "\<forall>r. r \<noteq> exports \<longrightarrow> r \<noteq> next_ref env \<longrightarrow> heap ?env' r = heap env r"
    by simp
  have rest: "next_ref ?env' = Suc (next_ref env) \<and>
      pending_exception ?env' = pending_exception env \<and> pending_exception ?env' = None"
    using pend by simp
  from run here others fresh ext objects rest show ?thesis
    by blast
qed

text \<open>On an exports object that already has a property \<open>name\<close> and a property
  \<open>extra\<close>: \<open>name\<close> is overwritten, \<open>extra\<close> and object 1 are as before, and the new
  External is object 2.\<close>

theorem Init_frame_witness:
  "ordinary_exports used_env 0 \<and>
   heap used_env 0 =
     Some (Ordinary \<lparr>props = [''name'' \<mapsto> Data Napi_Undefined True,
                              ''extra'' \<mapsto> Data (Napi_Object 1) True],
                     extensible = True, proto = None\<rparr>) \<and>
   returned (Init True no_scripts (static_language (Ptr 4096)) () used_env 0) = Some (Inr 0) \<and>
   own_value_after (Init True no_scripts (static_language (Ptr 4096)) () used_env 0) 0 ''name'' =
     Some (Napi_String ''thorn'') \<and>
   own_value_after (Init True no_scripts (static_language (Ptr 4096)) () used_env 0) 0 ''extra'' =
     Some (Napi_Object 1) \<and>
   own_value_after (Init True no_scripts (static_language (Ptr 4096)) () used_env 0) 0
     ''language'' = Some (Napi_Object 2) \<and>
   pointer_after (Init True no_scripts (static_language (Ptr 4096)) () used_env 0) 0
     ''language'' = Some (Ptr 4096) \<and>
   pending_after (Init True no_scripts (static_language (Ptr 4096)) () used_env 0) = None"
proof -
  let ?R = "Init True no_scripts (static_language (Ptr 4096)) () used_env 0"
  have obj: "heap used_env 0 =
      Some (Ordinary \<lparr>props = [''name'' \<mapsto> Data Napi_Undefined True,
                               ''extra'' \<mapsto> Data (Napi_Object 1) True],
                      extensible = True, proto = None\<rparr>)"
    by (simp add: used_env_def)
  have n: "next_ref used_env = 2"
    by (simp add: used_env_def)
  have before: "own_value used_env 0 ''extra'' = Some (Napi_Object 1)"
    by (simp add: own_value_def used_env_def)
  from Init_frame [OF used_env_ordinary obj, of True no_scripts "static_language (Ptr 4096)" "()"]
  obtain env' where run: "?R = Some (Inr 0, snd (static_language (Ptr 4096) ()), env')"
    and here: "heap env' 0 =
      Some (Ordinary (\<lparr>props = [''name'' \<mapsto> Data Napi_Undefined True,
                                ''extra'' \<mapsto> Data (Napi_Object 1) True],
                       extensible = True, proto = None\<rparr>\<lparr>props :=
          [''name'' \<mapsto> Data Napi_Undefined True, ''extra'' \<mapsto> Data (Napi_Object 1) True]
          (''name'' \<mapsto> Data (Napi_String ''thorn'') True,
           ''language'' \<mapsto> Data (Napi_Object (next_ref used_env)) True)\<rparr>))"
    and others: "\<forall>key. key \<noteq> ''name'' \<longrightarrow> key \<noteq> ''language'' \<longrightarrow>
      own_value env' 0 key = own_value used_env 0 key"
    and ext: "heap env' (next_ref used_env) =
      Some (External (fst (static_language (Ptr 4096) ())))"
    and pend: "pending_exception env' = None"
    by auto
  have ret: "returned ?R = Some (Inr 0)"
    by (simp add: run returned_def)
  have name: "own_value_after ?R 0 ''name'' = Some (Napi_String ''thorn'')"
    by (simp add: run own_value_after_def own_value_def here)
  have "own_value env' 0 ''extra'' = own_value used_env 0 ''extra''"
    using others by simp
  then have extra: "own_value_after ?R 0 ''extra'' = Some (Napi_Object 1)"
    by (simp add: run own_value_after_def before)
  have lang: "own_value_after ?R 0 ''language'' = Some (Napi_Object 2)"
    by (simp add: run own_value_after_def own_value_def here n)
  have ptr: "pointer_after ?R 0 ''language'' = Some (Ptr 4096)"
    using ext by (simp add: run pointer_after_def own_value_def wrapped_pointer_def here n
        static_language_def)
  have pending: "pending_after ?R = None"
    by (simp add: run pending_after_def pend)
  from used_env_ordinary obj ret name extra lang ptr pending show ?thesis
    by blast
qed

text \<open>
  C10. \<open>Init\<close> validates nothing: whatever pointer \<open>tree_sitter_thorn\<close> returns,
  \<open>Init\<close> on an ordinary exports object, in either build, raises nothing (it returns
  the exports object and no exception is pending) and stores under \<open>language\<close> an
  External that wraps that pointer; this holds for the null pointer too, so the caller
  can receive a null language handle.
\<close>

theorem Init_no_validation:
  assumes "ordinary_exports env exports" and "fst (tst w) = p"
  shows "returned (Init cpp_exceptions run tst w env exports) = Some (Inr exports) \<and>
         pending_after (Init cpp_exceptions run tst w env exports) = None \<and>
         pointer_after (Init cpp_exceptions run tst w env exports) exports ''language'' =
           Some p \<and>
         returned (Init cpp_exceptions run (static_language nullptr) w env exports) =
           Some (Inr exports) \<and>
         pending_after (Init cpp_exceptions run (static_language nullptr) w env exports) =
           None \<and>
         pointer_after (Init cpp_exceptions run (static_language nullptr) w env exports)
           exports ''language'' = Some nullptr"
  using assms(2) Init_ordinary_view [OF assms(1), of cpp_exceptions run tst w]
    Init_ordinary_view [OF assms(1), of cpp_exceptions run "static_language nullptr" w]
  by (simp add: static_language_def)

theorem Init_no_validation_witness:
  "ordinary_exports load_env 0 \<and> fst (static_language (Ptr 0) ()) = Ptr 0 \<and>
   returned (Init False no_scripts (static_language (Ptr 0)) () load_env 0) = Some (Inr 0) \<and>
   pending_after (Init False no_scripts (static_language (Ptr 0)) () load_env 0) = None \<and>
   pointer_after (Init False no_scripts (static_language (Ptr 0)) () load_env 0) 0
     ''language'' = Some (Ptr 0)"
proof -
  have null: "fst (static_language (Ptr 0) ()) = Ptr 0"
    by (simp add: static_language_def)
  show ?thesis
    using load_env_ordinary null
      Init_no_validation [of load_env 0 "static_language (Ptr 0)" "()" "Ptr 0" False no_scripts]
    by (simp add: nullptr_def)
qed

end
